theory Spec2Isabelle
  imports Main
begin

section \<open>Python values\<close>

text \<open>
  The report code of \<^verbatim>\<open>aggregator.py\<close> is dynamically typed: a section is a dict, its
  \<^verbatim>\<open>content\<close> is a string, a list or a dict, and the renderers dispatch on the runtime type.
  The model keeps that: one datatype of Python values. Dict keys are strings (every key the
  code reads or writes is one) and a dict is an association list in insertion order, looked
  up with \<open>map_of\<close>. Strings are lists of 8-bit characters, read as the code points 0..255.
  Floats and user-defined objects are outside the model.
\<close>

datatype pyval =
    PNone
  | PBool bool
  | PInt int
  | PStr string
  | PList "pyval list"
  | PDict "(string \<times> pyval) list"

text \<open>The exceptions the code can raise on these values.\<close>

datatype py_error = KeyError | AttributeError | TypeError

type_synonym 'a result = "py_error + 'a"

definition bind :: "'a result \<Rightarrow> ('a \<Rightarrow> 'b result) \<Rightarrow> 'b result" where
  "bind r f = (case r of Inl e \<Rightarrow> Inl e | Inr v \<Rightarrow> f v)"

text \<open>Truth value of an object in an \<^verbatim>\<open>if\<close>.\<close>

fun truthy :: "pyval \<Rightarrow> bool" where
  "truthy PNone = False"
| "truthy (PBool b) = b"
| "truthy (PInt i) = (i \<noteq> 0)"
| "truthy (PStr s) = (s \<noteq> [])"
| "truthy (PList xs) = (xs \<noteq> [])"
| "truthy (PDict d) = (d \<noteq> [])"

text \<open>
  \<^verbatim>\<open>==\<close>: numbers compare by value (\<^verbatim>\<open>True == 1\<close>), lists pointwise, dicts by keys,
  everything else only with its own kind.
\<close>

fun py_eq :: "pyval \<Rightarrow> pyval \<Rightarrow> bool" where
  "py_eq PNone PNone = True"
| "py_eq (PBool a) (PBool b) = (a = b)"
| "py_eq (PBool a) (PInt b) = ((if a then 1 else 0) = b)"
| "py_eq (PInt a) (PBool b) = (a = (if b then 1 else 0))"
| "py_eq (PInt a) (PInt b) = (a = b)"
| "py_eq (PStr a) (PStr b) = (a = b)"
| "py_eq (PList xs) (PList ys) = list_all2 py_eq xs ys"
| "py_eq (PDict d) (PDict e) =
     (length d = length e \<and>
      list_all (\<lambda>(k, v). case map_of e k of None \<Rightarrow> False | Some w \<Rightarrow> py_eq v w) d)"
| "py_eq _ _ = False"

text \<open>\<^verbatim>\<open>d.get(k, default)\<close> on a dict.\<close>

definition dict_get :: "(string \<times> pyval) list \<Rightarrow> string \<Rightarrow> pyval \<Rightarrow> pyval" where
  "dict_get d k dflt = (case map_of d k of None \<Rightarrow> dflt | Some v \<Rightarrow> v)"

text \<open>\<^verbatim>\<open>x.get(k, default)\<close> on any object: only a dict has the method.\<close>

definition py_get :: "pyval \<Rightarrow> string \<Rightarrow> pyval \<Rightarrow> pyval result" where
  "py_get x k dflt = (case x of PDict d \<Rightarrow> Inr (dict_get d k dflt) | _ \<Rightarrow> Inl AttributeError)"

text \<open>
  \<^verbatim>\<open>for item in x\<close>: a list gives its elements, a string its characters, a dict its keys;
  \<^verbatim>\<open>None\<close>, booleans and integers are not iterable.
\<close>

definition py_iter :: "pyval \<Rightarrow> pyval list result" where
  "py_iter x = (case x of
       PList xs \<Rightarrow> Inr xs
     | PStr s \<Rightarrow> Inr (map (\<lambda>c. PStr [c]) s)
     | PDict d \<Rightarrow> Inr (map (\<lambda>kv. PStr (fst kv)) d)
     | _ \<Rightarrow> Inl TypeError)"

subsection \<open>Strings\<close>

definition digit_char :: "nat \<Rightarrow> char" where
  "digit_char n = char_of (48 + n)"

function str_of_nat :: "nat \<Rightarrow> string" where
  "str_of_nat n = (if n < 10 then [digit_char n] else str_of_nat (n div 10) @ [digit_char (n mod 10)])"
  by pat_completeness auto
termination
  by (relation "measure id") auto

declare str_of_nat.simps [simp del]

definition str_of_int :: "int \<Rightarrow> string" where
  "str_of_int i = (if i < 0 then CHR ''-'' # str_of_nat (nat (- i)) else str_of_nat (nat i))"

definition hex_char :: "nat \<Rightarrow> char" where
  "hex_char n = (if n < 10 then char_of (48 + n) else char_of (87 + n))"

text \<open>
  \<^verbatim>\<open>repr\<close> of a string: single quotes unless the string has a single quote and no double
  quote; the quote and the backslash are escaped, tab, newline and carriage return have
  their letters, and the other characters that are not printable (controls, 0x7f..0xa0,
  0xad) are written \<^verbatim>\<open>\xhh\<close>.
\<close>

definition repr_char :: "char \<Rightarrow> char \<Rightarrow> string" where
  "repr_char q c =
     (let n = (of_char c :: nat) in
      if c = q \<or> c = CHR 0x5C then [CHR 0x5C, c]
      else if c = CHR 0x09 then [CHR 0x5C, CHR ''t'']
      else if c = CHR 0x0A then [CHR 0x5C, CHR ''n'']
      else if c = CHR 0x0D then [CHR 0x5C, CHR ''r'']
      else if n < 32 \<or> (127 \<le> n \<and> n \<le> 160) \<or> n = 173
        then [CHR 0x5C, CHR ''x'', hex_char (n div 16), hex_char (n mod 16)]
      else [c])"

definition repr_str :: "string \<Rightarrow> string" where
  "repr_str s =
     (let q = (if CHR 0x27 \<in> set s \<and> CHR 0x22 \<notin> set s then CHR 0x22 else CHR 0x27)
      in q # concat (map (repr_char q) s) @ [q])"

text \<open>\<^verbatim>\<open>sep.join(xs)\<close>.\<close>

fun py_join :: "string \<Rightarrow> string list \<Rightarrow> string" where
  "py_join sep [] = []"
| "py_join sep [x] = x"
| "py_join sep (x # y # ys) = x @ sep @ py_join sep (y # ys)"

fun py_repr :: "pyval \<Rightarrow> string" where
  "py_repr PNone = ''None''"
| "py_repr (PBool b) = (if b then ''True'' else ''False'')"
| "py_repr (PInt i) = str_of_int i"
| "py_repr (PStr s) = repr_str s"
| "py_repr (PList xs) = ''['' @ py_join '', '' (map py_repr xs) @ '']''"
| "py_repr (PDict d) =
     ''{'' @ py_join '', '' (map (\<lambda>kv. repr_str (fst kv) @ '': '' @ py_repr (snd kv)) d) @ ''}''"

text \<open>\<^verbatim>\<open>str(x)\<close>, which is what an f-string field \<^verbatim>\<open>{x}\<close> inserts.\<close>

definition py_str :: "pyval \<Rightarrow> string" where
  "py_str x = (case x of PStr s \<Rightarrow> s | _ \<Rightarrow> py_repr x)"

text \<open>\<^verbatim>\<open>str.isspace\<close> on the code points 0..255, and \<^verbatim>\<open>str.strip()\<close>.\<close>

definition is_space :: "char \<Rightarrow> bool" where
  "is_space c =
     (let n = (of_char c :: nat) in (9 \<le> n \<and> n \<le> 13) \<or> (28 \<le> n \<and> n \<le> 32) \<or> n = 133 \<or> n = 160)"

definition py_strip :: "string \<Rightarrow> string" where
  "py_strip s = rev (dropWhile is_space (rev (dropWhile is_space s)))"

text \<open>\<^verbatim>\<open>s.replace('**', '*')\<close>: left to right, occurrences do not overlap.\<close>

fun replace_bold :: "string \<Rightarrow> string" where
  "replace_bold (a # b # s) =
     (if a = CHR ''*'' \<and> b = CHR ''*'' then CHR ''*'' # replace_bold s else a # replace_bold (b # s))"
| "replace_bold s = s"

text \<open>
  \<^verbatim>\<open>s * n\<close> for a string \<open>s\<close>: \<open>n\<close> is an integer (a boolean counts as 0 or 1), a count
  below 1 gives the empty string, anything else is a \<^verbatim>\<open>TypeError\<close>.
\<close>

definition py_int_of :: "pyval \<Rightarrow> int result" where
  "py_int_of x = (case x of PInt i \<Rightarrow> Inr i | PBool b \<Rightarrow> Inr (if b then 1 else 0) | _ \<Rightarrow> Inl TypeError)"

definition str_times :: "string \<Rightarrow> int \<Rightarrow> string" where
  "str_times s n = concat (replicate (nat n) s)"

definition nl :: string where
  "nl = [CHR 0x0A]"

section \<open>The Markdown renderer\<close>

text \<open>
  \<^verbatim>\<open>_write_markdown_report(report_data, file_path)\<close>. The model returns the text the
  function writes when it runs to its end, or the exception that leaves it (the partly
  written file of that case is not modelled).
\<close>

text \<open>One item of a dict content (lines 23 to 28).\<close>

definition md_struct_item :: "(string \<times> pyval) list \<Rightarrow> pyval \<Rightarrow> string result" where
  "md_struct_item content item = (case item of
       PDict i \<Rightarrow>
         Inr (''- **'' @ py_str (dict_get content ''item_prefix'' (PStr ''URL'')) @ '':** ''
                @ py_str (dict_get i ''primary'' (PStr [])) @ nl
              @ (if truthy (dict_get i ''secondary'' PNone)
                 then ''  - **'' @ py_str (dict_get content ''secondary_prefix'' (PStr ''Snippet''))
                        @ '':** '' @ py_str (dict_get i ''secondary'' (PStr [])) @ nl
                 else [])
              @ (if truthy (dict_get i ''tertiary'' PNone)
                 then ''  - **'' @ py_str (dict_get content ''tertiary_prefix'' (PStr ''Tertiary''))
                        @ '':** '' @ py_str (dict_get i ''tertiary'' (PStr [])) @ nl
                 else [])
              @ nl)
     | _ \<Rightarrow> Inl AttributeError)"

fun md_struct_items :: "(string \<times> pyval) list \<Rightarrow> pyval list \<Rightarrow> string result" where
  "md_struct_items content [] = Inr []"
| "md_struct_items content (item # items) =
     bind (md_struct_item content item) (\<lambda>s.
     bind (md_struct_items content items) (\<lambda>r. Inr (s @ r)))"

text \<open>\<^verbatim>\<open>content.strip()\<close>: only a string has the method.\<close>

definition str_strip :: "pyval \<Rightarrow> string result" where
  "str_strip x = (case x of PStr s \<Rightarrow> Inr (py_strip s) | _ \<Rightarrow> Inl AttributeError)"

definition no_content :: string where
  "no_content = ''_No content for this section._''"

text \<open>The dispatch on the content (lines 17 to 32); \<open>title\<close> is read by the last branch.\<close>

definition md_content :: "pyval \<Rightarrow> pyval \<Rightarrow> string result" where
  "md_content title content = (case content of
       PList items \<Rightarrow> Inr (concat (map (\<lambda>item. ''- '' @ py_str item @ nl) items) @ nl)
     | PDict d \<Rightarrow> bind (py_iter (dict_get d ''items'' (PList []))) (md_struct_items d)
     | _ \<Rightarrow>
         if truthy content then bind (str_strip content) (\<lambda>s. Inr (s @ nl @ nl))
         else if truthy title then Inr (no_content @ nl @ nl)
         else Inr [])"

text \<open>The heading (lines 14 and 15).\<close>

definition md_heading :: "pyval \<Rightarrow> pyval \<Rightarrow> string result" where
  "md_heading level title =
     (if truthy title
      then bind (py_int_of level) (\<lambda>n. Inr (str_times ''#'' n @ '' '' @ py_str title @ nl @ nl))
      else Inr [])"

text \<open>One pass of the loop over the sections (lines 10 to 32).\<close>

definition md_section :: "pyval \<Rightarrow> string result" where
  "md_section section =
     bind (py_get section ''level'' (PInt 1)) (\<lambda>level.
     bind (py_get section ''title'' (PStr [])) (\<lambda>title.
     bind (py_get section ''content'' (PStr [])) (\<lambda>content.
     bind (md_heading level title) (\<lambda>h.
     bind (md_content title content) (\<lambda>c. Inr (h @ c))))))"

fun md_sections :: "pyval list \<Rightarrow> string result" where
  "md_sections [] = Inr []"
| "md_sections (section # rest) =
     bind (md_section section) (\<lambda>s.
     bind (md_sections rest) (\<lambda>r. Inr (s @ r)))"

definition write_markdown_report :: "pyval list \<Rightarrow> string result" where
  "write_markdown_report report_data = md_sections report_data"

section \<open>The AsciiDoc renderer\<close>

text \<open>
  \<^verbatim>\<open>_write_asciidoc_report(report_data, file_path)\<close> collects lines and writes them joined
  by newlines. Line 41 looks for the document title: the generator
  \<^verbatim>\<open>(s['title'] for s in report_data if s.get('level') == 1)\<close> is read up to its first
  element, so the sections after the first one of level 1 are not looked at, and the
  subscript raises \<^verbatim>\<open>KeyError\<close> when that section has no title key.
\<close>

fun first_h1_title :: "pyval list \<Rightarrow> pyval result" where
  "first_h1_title [] = Inr PNone"
| "first_h1_title (s # rest) = (case s of
       PDict d \<Rightarrow>
         if py_eq (dict_get d ''level'' PNone) (PInt 1)
         then (case map_of d ''title'' of None \<Rightarrow> Inl KeyError | Some t \<Rightarrow> Inr t)
         else first_h1_title rest
     | _ \<Rightarrow> Inl AttributeError)"

text \<open>One item of a dict content (lines 67 to 76).\<close>

definition adoc_struct_item :: "(string \<times> pyval) list \<Rightarrow> pyval \<Rightarrow> string list result" where
  "adoc_struct_item content item = (case item of
       PDict i \<Rightarrow>
         (let primary = dict_get i ''primary'' (PStr []);
              secondary = dict_get i ''secondary'' (PStr []);
              tertiary = dict_get i ''tertiary'' (PStr [])
          in Inr ([py_str (dict_get content ''item_prefix'' (PStr ''URL'')) @ '':: '' @ py_str primary]
                  @ (if truthy secondary
                     then [py_str (dict_get content ''secondary_prefix'' (PStr ''Snippet''))
                             @ ''::: '' @ py_str secondary]
                     else [])
                  @ (if truthy tertiary
                     then [py_str (dict_get content ''tertiary_prefix'' (PStr ''Tertiary''))
                             @ '':::: '' @ py_str tertiary]
                     else [])
                  @ [[]]))
     | _ \<Rightarrow> Inl AttributeError)"

fun adoc_struct_items :: "(string \<times> pyval) list \<Rightarrow> pyval list \<Rightarrow> string list result" where
  "adoc_struct_items content [] = Inr []"
| "adoc_struct_items content (item # items) =
     bind (adoc_struct_item content item) (\<lambda>ls.
     bind (adoc_struct_items content items) (\<lambda>r. Inr (ls @ r)))"

definition is_str :: "pyval \<Rightarrow> bool" where
  "is_str x = (case x of PStr s \<Rightarrow> True | _ \<Rightarrow> False)"

text \<open>
  The test of lines 51 and 84: \<^verbatim>\<open>level == 1 and title == first_h1_title\<close>.
\<close>

definition is_first_h1 :: "pyval \<Rightarrow> pyval \<Rightarrow> pyval \<Rightarrow> bool" where
  "is_first_h1 h1 level title = (py_eq level (PInt 1) \<and> py_eq title h1)"

text \<open>
  The dispatch on the content (lines 59 to 85). \<open>skipped\<close> is \<^verbatim>\<open>first_h1_skipped\<close> as it
  is after the heading step of the same pass.
\<close>

definition adoc_content :: "pyval \<Rightarrow> bool \<Rightarrow> pyval \<Rightarrow> pyval \<Rightarrow> pyval \<Rightarrow> string list result" where
  "adoc_content h1 skipped level title content = (case content of
       PList items \<Rightarrow> Inr (map (\<lambda>item. ''* '' @ py_str item) items @ [[]])
     | PDict d \<Rightarrow>
         (let items = dict_get d ''items'' (PList []) in
          if truthy items then bind (py_iter items) (adoc_struct_items d)
          else if is_str content then bind (str_strip content) (\<lambda>s. Inr [s @ nl])
          else Inr [])
     | _ \<Rightarrow>
         if truthy content
         then bind (str_strip content) (\<lambda>s. Inr [replace_bold s @ nl])
         else if truthy title \<and> \<not> (is_first_h1 h1 level title \<and> skipped)
         then Inr [no_content @ nl]
         else Inr [])"

text \<open>
  The heading step (lines 51 to 56): the lines it appends and the new value of
  \<^verbatim>\<open>first_h1_skipped\<close>.
\<close>

definition adoc_heading :: "pyval \<Rightarrow> bool \<Rightarrow> pyval \<Rightarrow> pyval \<Rightarrow> (string list \<times> bool) result" where
  "adoc_heading h1 skipped level title =
     (if is_first_h1 h1 level title \<and> \<not> skipped then Inr ([], True)
      else if truthy title
      then bind (py_int_of level) (\<lambda>n.
             Inr ([str_times ''='' (n + 1) @ '' '' @ py_str title @ nl], skipped))
      else Inr ([], skipped))"

text \<open>One pass of the loop over the sections (lines 46 to 85).\<close>

definition adoc_section :: "pyval \<Rightarrow> bool \<Rightarrow> pyval \<Rightarrow> (string list \<times> bool) result" where
  "adoc_section h1 skipped section =
     bind (py_get section ''level'' (PInt 1)) (\<lambda>level.
     bind (py_get section ''title'' (PStr [])) (\<lambda>title.
     bind (py_get section ''content'' (PStr [])) (\<lambda>content.
     bind (adoc_heading h1 skipped level title) (\<lambda>(h, skipped').
     bind (adoc_content h1 skipped' level title content) (\<lambda>c. Inr (h @ c, skipped'))))))"

fun adoc_sections :: "pyval \<Rightarrow> bool \<Rightarrow> pyval list \<Rightarrow> string list result" where
  "adoc_sections h1 skipped [] = Inr []"
| "adoc_sections h1 skipped (section # rest) =
     bind (adoc_section h1 skipped section) (\<lambda>(ls, skipped').
     bind (adoc_sections h1 skipped' rest) (\<lambda>r. Inr (ls @ r)))"

definition adoc_lines :: "pyval list \<Rightarrow> string list result" where
  "adoc_lines report_data =
     bind (first_h1_title report_data) (\<lambda>h1.
     bind (adoc_sections h1 False report_data) (\<lambda>body.
       Inr ((if truthy h1 then [''= '' @ py_str h1 @ nl] else []) @ body)))"

definition write_asciidoc_report :: "pyval list \<Rightarrow> string result" where
  "write_asciidoc_report report_data = bind (adoc_lines report_data) (\<lambda>ls. Inr (py_join nl ls))"

section \<open>The report builder\<close>

text \<open>
  \<^verbatim>\<open>aggregate_results\<close> builds two documents (lines 111 to 180) and writes each with both
  renderers. A loop that appends one record for each input element is \<open>map_result\<close>: it
  stops at the first element that raises.
\<close>

fun map_result :: "('a \<Rightarrow> 'b result) \<Rightarrow> 'a list \<Rightarrow> 'b list result" where
  "map_result f [] = Inr []"
| "map_result f (x # xs) = bind (f x) (\<lambda>y. bind (map_result f xs) (\<lambda>ys. Inr (y # ys)))"

definition final_report_data :: "pyval \<Rightarrow> pyval list" where
  "final_report_data final_answer =
     [PDict [(''level'', PInt 1), (''title'', PStr ''Final Aggregated Answer (RAG)''), (''content'', final_answer)]]"

definition web_item :: "pyval \<Rightarrow> pyval result" where
  "web_item item =
     bind (py_get item ''url'' (PStr [])) (\<lambda>url.
     bind (py_get item ''snippet'' (PStr [])) (\<lambda>snippet.
       Inr (PDict [(''primary'', url), (''secondary'', snippet)])))"

definition web_section_content :: "pyval \<Rightarrow> pyval result" where
  "web_section_content web_results =
     (if truthy web_results
      then bind (py_iter web_results) (\<lambda>xs.
           bind (map_result web_item xs) (\<lambda>items.
             Inr (PDict [(''items'', PList items), (''item_prefix'', PStr ''URL''),
                         (''secondary_prefix'', PStr ''Snippet'')])))
      else Inr (PStr ''_No web results found_''))"

definition grouped_item :: "pyval \<Rightarrow> pyval result" where
  "grouped_item item =
     bind (py_get item ''url'' (PStr [])) (\<lambda>url.
     bind (py_get item ''file_path'' (PStr [])) (\<lambda>file_path.
     bind (py_get item ''content_type'' (PStr [])) (\<lambda>content_type.
       Inr (PDict [(''primary'', url), (''secondary'', file_path), (''tertiary'', content_type)]))))"

definition domain_section :: "string \<times> pyval \<Rightarrow> pyval result" where
  "domain_section kv =
     bind (py_iter (snd kv)) (\<lambda>xs.
     bind (map_result grouped_item xs) (\<lambda>items.
       Inr (PDict [(''level'', PInt 3), (''title'', PStr (''Domain: '' @ fst kv)),
                   (''content'',
                    PDict [(''items'', PList items), (''item_prefix'', PStr ''URL''),
                           (''secondary_prefix'', PStr ''File Path''),
                           (''tertiary_prefix'', PStr ''Content Type'')])])))"

text \<open>
  The grouped section (lines 136 to 153): no section when the argument is false,
  \<^verbatim>\<open>.items()\<close> needs a dict.
\<close>

definition grouped_sections :: "pyval \<Rightarrow> pyval list result" where
  "grouped_sections grouped_web_results =
     (if truthy grouped_web_results
      then (case grouped_web_results of
              PDict g \<Rightarrow>
                bind (map_result domain_section g) (\<lambda>subs.
                  Inr [PDict [(''level'', PInt 2), (''title'', PStr ''Grouped Web Results by Domain''),
                              (''content'', PList subs)]])
            | _ \<Rightarrow> Inl AttributeError)
      else Inr [])"

definition local_item :: "pyval \<Rightarrow> pyval result" where
  "local_item doc =
     bind (py_get doc ''metadata'' (PDict [])) (\<lambda>meta.
       case meta of
         PDict m \<Rightarrow>
           Inr (PDict ((''primary'', dict_get m ''file_path'' (PStr []))
                  # (if map_of m ''page'' \<noteq> None
                     then [(''secondary'', dict_get m ''page'' PNone),
                           (''tertiary'', dict_get m ''snippet'' (PStr []))]
                     else [(''secondary'', dict_get m ''snippet'' (PStr []))])))
       | _ \<Rightarrow> Inl AttributeError)"

definition local_section_content :: "pyval \<Rightarrow> pyval result" where
  "local_section_content local_results =
     (if truthy local_results
      then bind (py_iter local_results) (\<lambda>xs.
           bind (map_result local_item xs) (\<lambda>items.
             Inr (PDict [(''items'', PList items), (''item_prefix'', PStr ''File''),
                         (''secondary_prefix'', PStr ''Page''),
                         (''tertiary_prefix'', PStr ''Snippet'')])))
      else Inr (PStr ''_No local results found_''))"

definition aggregator_report_data ::
  "string \<Rightarrow> pyval \<Rightarrow> pyval \<Rightarrow> pyval \<Rightarrow> pyval \<Rightarrow> pyval \<Rightarrow> pyval \<Rightarrow> pyval \<Rightarrow> pyval list result" where
  "aggregator_report_data query_id enhanced_query web_results local_results final_answer
       grouped_web_results previous_results follow_up_conversation =
     bind (web_section_content web_results) (\<lambda>web.
     bind (grouped_sections grouped_web_results) (\<lambda>grouped.
     bind (local_section_content local_results) (\<lambda>local.
       Inr ([PDict [(''level'', PInt 1),
                    (''title'', PStr (''Aggregated Results for Query ID: '' @ query_id))],
             PDict [(''level'', PInt 2), (''title'', PStr ''Enhanced Query''),
                    (''content'', enhanced_query)],
             PDict [(''level'', PInt 1), (''title'', PStr ''Final Aggregated Answer (RAG)''), (''content'', final_answer)],
             PDict [(''level'', PInt 2), (''title'', PStr ''Web Search Results''), (''content'', web)]]
            @ grouped
            @ [PDict [(''level'', PInt 2), (''title'', PStr ''Local Retrieval Results''),
                      (''content'', local)]]
            @ (if truthy previous_results
               then [PDict [(''level'', PInt 2), (''title'', PStr ''Previous Results Integrated''),
                            (''content'', previous_results)]]
               else [])
            @ (if truthy follow_up_conversation
               then [PDict [(''level'', PInt 2), (''title'', PStr ''Follow-Up Conversation''),
                            (''content'', follow_up_conversation)]]
               else [])))))"

section \<open>Paths and files\<close>





text \<open>
  A section that the test of line 51 does not take for the document title \<open>h1\<close>; used to
  state facts about the loop.
\<close>

definition not_h1 :: "pyval \<Rightarrow> pyval \<Rightarrow> bool" where
  "not_h1 h1 s = (case s of PDict d \<Rightarrow>
      \<not> is_first_h1 h1 (dict_get d ''level'' (PInt 1)) (dict_get d ''title'' (PStr [])) | _ \<Rightarrow> True)"

text \<open>
  The value of \<^verbatim>\<open>first_h1_skipped\<close> after the loop has run over the given sections,
  starting from \<open>skipped\<close>: the flag is set by the first section that the test of line 51
  takes for the document title.
\<close>

fun skipped_after :: "pyval \<Rightarrow> bool \<Rightarrow> pyval list \<Rightarrow> bool" where
  "skipped_after h1 skipped [] = skipped"
| "skipped_after h1 skipped (s # rest) = skipped_after h1 (skipped \<or> \<not> not_h1 h1 s) rest"

section \<open>The inputs of the builder\<close>









section \<open>Auxiliary facts\<close>

lemma bind_Inr [simp]: "bind (Inr v) f = f v"
  by (simp add: bind_def)

lemma bind_Inl [simp]: "bind (Inl e) f = Inl e"
  by (simp add: bind_def)

lemma bind_eq_Inr: "bind r f = Inr y \<longleftrightarrow> (\<exists>v. r = Inr v \<and> f v = Inr y)"
  by (cases r) auto

lemma bind_return [simp]: "bind r Inr = r"
  by (cases r) auto

lemma first_h1_title_skip:
  assumes "\<forall>s \<in> set pre. \<exists>d. s = PDict d \<and> \<not> py_eq (dict_get d ''level'' PNone) (PInt 1)"
  shows "first_h1_title (pre @ rest) = first_h1_title rest"
  using assms by (induction pre) auto

lemma adoc_section_flag:
  "adoc_section h1 sk s = Inr (ls, sk') \<Longrightarrow> not_h1 h1 s \<Longrightarrow> sk' = sk"
  by (cases s) (auto simp: adoc_section_def py_get_def adoc_heading_def not_h1_def bind_def split: sum.splits if_splits)

lemma adoc_sections_append:
  assumes "\<forall>s \<in> set pre. not_h1 h1 s"
  shows "adoc_sections h1 sk (pre @ rest) =
     bind (adoc_sections h1 sk pre) (\<lambda>a. bind (adoc_sections h1 sk rest) (\<lambda>b. Inr (a @ b)))"
  using assms
proof (induction pre)
  case Nil
  show ?case by (cases "adoc_sections h1 sk rest") auto
next
  case (Cons s pre)
  show ?case
  proof (cases "adoc_section h1 sk s")
    case (Inl e)
    then show ?thesis by simp
  next
    case (Inr p)
    obtain ls sk' where p: "p = (ls, sk')" by (cases p)
    with Inr Cons.prems have "sk' = sk" using adoc_section_flag by auto
    with Inr p Cons show ?thesis
      by (auto simp: bind_def split: sum.splits)
  qed
qed

lemma falsy_not_eq_title: "\<not> truthy t \<Longrightarrow> T \<noteq> [] \<Longrightarrow> \<not> py_eq (PStr T) t"
  by (cases t) auto

lemma adoc_section_flag_after:
  "adoc_section h1 sk s = Inr (ls, sk') \<Longrightarrow> sk' = (sk \<or> \<not> not_h1 h1 s)"
  by (cases s)
    (auto simp: adoc_section_def py_get_def adoc_heading_def not_h1_def bind_def
      split: sum.splits if_splits)

lemma adoc_sections_split:
  "adoc_sections h1 sk (pre @ rest) =
     bind (adoc_sections h1 sk pre) (\<lambda>a.
     bind (adoc_sections h1 (skipped_after h1 sk pre) rest) (\<lambda>b. Inr (a @ b)))"
proof (induction pre arbitrary: sk)
  case Nil
  show ?case by simp
next
  case (Cons s pre)
  show ?case
  proof (cases "adoc_section h1 sk s")
    case (Inl e)
    then show ?thesis by simp
  next
    case (Inr p)
    obtain ls sk' where p: "p = (ls, sk')" by (cases p)
    with Inr have sk': "sk' = (sk \<or> \<not> not_h1 h1 s)"
      using adoc_section_flag_after by blast
    show ?thesis
      using Inr p sk' Cons.IH [of sk']
      by (auto simp: bind_def split: sum.splits)
  qed
qed

lemma md_sections_append:
  "md_sections (pre @ rest) =
     bind (md_sections pre) (\<lambda>a. bind (md_sections rest) (\<lambda>b. Inr (a @ b)))"
  by (induction pre) (auto simp: bind_def split: sum.splits)

lemma adoc_section_titled:
  assumes "dict_get d ''level'' (PInt 1) = PInt n" and "0 \<le> n"
    and "dict_get d ''title'' (PStr []) = title" and "truthy title"
    and "dict_get d ''content'' (PStr []) = content"
    and "\<not> (is_first_h1 h1 (PInt n) title \<and> \<not> sk)"
  shows "adoc_section h1 sk (PDict d) =
     bind (adoc_content h1 sk (PInt n) title content) (\<lambda>c.
       Inr ((replicate (Suc (nat n)) CHR ''='' @ '' '' @ py_str title @ nl) # c, sk))"
  using assms
  by (auto simp: adoc_section_def py_get_def adoc_heading_def py_int_of_def str_times_def
      nat_add_distrib)

lemma md_section_titled:
  assumes "dict_get d ''level'' (PInt 1) = PInt n"
    and "dict_get d ''title'' (PStr []) = title" and "truthy title"
    and "dict_get d ''content'' (PStr []) = content"
  shows "md_section (PDict d) =
     bind (md_content title content) (\<lambda>c.
       Inr (replicate (nat n) CHR ''#'' @ '' '' @ py_str title @ nl @ nl @ c))"
  using assms
  by (auto simp: md_section_def py_get_def md_heading_def py_int_of_def str_times_def)

lemma map_result_nth:
  assumes "\<forall>x \<in> set xs. \<exists>y. f x = Inr y \<and> P x y"
  shows "\<exists>ys. map_result f xs = Inr ys \<and> length ys = length xs \<and> (\<forall>i < length xs. P (xs ! i) (ys ! i))"
  using assms
proof (induction xs)
  case Nil
  show ?case by simp
next
  case (Cons x xs)
  then obtain y where y: "f x = Inr y" "P x y" by auto
  from Cons obtain ys where ys: "map_result f xs = Inr ys" "length ys = length xs"
    "\<forall>i < length xs. P (xs ! i) (ys ! i)" by auto
  have "\<forall>i < length (x # xs). P ((x # xs) ! i) ((y # ys) ! i)"
    using y(2) ys(3) by (auto simp: nth_Cons split: nat.splits)
  with y(1) ys(1,2) show ?case by simp
qed

lemma local_item_maps:
  assumes "dict_get doc ''metadata'' (PDict []) = PDict meta"
  shows "\<exists>item. local_item (PDict doc) = Inr (PDict item) \<and>
     map_of item ''primary'' = Some (dict_get meta ''file_path'' (PStr [])) \<and>
     (case map_of meta ''page'' of
        Some page \<Rightarrow> map_of item ''secondary'' = Some page \<and>
                     map_of item ''tertiary'' = Some (dict_get meta ''snippet'' (PStr []))
      | None \<Rightarrow> map_of item ''secondary'' = Some (dict_get meta ''snippet'' (PStr [])) \<and>
                map_of item ''tertiary'' = None)"
  using assms by (auto simp: local_item_def py_get_def dict_get_def split: option.splits)

section \<open>The builder's documents\<close>

text \<open>
  A small call used below: query \<^verbatim>\<open>q1\<close>, no web, local or grouped results, no earlier
  results and no follow-up.
\<close>

lemma small_document:
  "aggregator_report_data ''q1'' (PStr ''e'') (PList []) (PList []) (PStr ''a'') PNone PNone PNone =
     Inr [PDict [(''level'', PInt 1), (''title'', PStr ''Aggregated Results for Query ID: q1'')],
          PDict [(''level'', PInt 2), (''title'', PStr ''Enhanced Query''), (''content'', PStr ''e'')],
          PDict [(''level'', PInt 1), (''title'', PStr ''Final Aggregated Answer (RAG)''),
                 (''content'', PStr ''a'')],
          PDict [(''level'', PInt 2), (''title'', PStr ''Web Search Results''),
                 (''content'', PStr ''_No web results found_'')],
          PDict [(''level'', PInt 2), (''title'', PStr ''Local Retrieval Results''),
                 (''content'', PStr ''_No local results found_'')]]"
  by code_simp

text \<open>
  Claim C4, as amended. The answer-only document is one section of level 1 whose content
  is the final answer, and the third section of the full document is the same record. Its
  title is \<^verbatim>\<open>Final Aggregated Answer (RAG)\<close>, not \<^verbatim>\<open>Final Aggregated Answer\<close>.
\<close>

theorem answer_section_title:
  "final_report_data final_answer =
     [PDict [(''level'', PInt 1), (''title'', PStr ''Final Aggregated Answer (RAG)''),
             (''content'', final_answer)]] \<and>
   (aggregator_report_data query_id enhanced_query web_results local_results final_answer
        grouped_web_results previous_results follow_up_conversation = Inr doc \<longrightarrow>
    [doc ! 2] = final_report_data final_answer)"
  by (auto simp: final_report_data_def aggregator_report_data_def bind_eq_Inr)

theorem answer_section_title_witness:
  "\<exists>doc. aggregator_report_data ''q1'' (PStr ''e'') (PList []) (PList []) (PStr ''a'')
            PNone PNone PNone = Inr doc \<and>
         [doc ! 2] = [PDict [(''level'', PInt 1), (''title'', PStr ''Final Aggregated Answer (RAG)''),
                             (''content'', PStr ''a'')]]"
  using small_document
    answer_section_title [of "PStr ''a''" "''q1''" "PStr ''e''" "PList []" "PList []" PNone PNone PNone]
  by simp

text \<open>
  Claim C4 as the specification states it fails: the title the builder writes is not
  \<^verbatim>\<open>Final Aggregated Answer\<close>.
\<close>

theorem answer_title_counterexample:
  "final_report_data (PStr ''a'') \<noteq>
     [PDict [(''level'', PInt 1), (''title'', PStr ''Final Aggregated Answer''),
             (''content'', PStr ''a'')]]"
  by (simp add: final_report_data_def)

text \<open>
  Claim C7. With an empty list of web results the content of the section
  \<^verbatim>\<open>Web Search Results\<close>, the fourth of the full document, is the string
  \<^verbatim>\<open>_No web results found_\<close>; with a list that is not empty the content is a dict, so the
  two cases can be told apart.
\<close>

theorem no_web_results_placeholder:
  "web_section_content (PList []) = Inr (PStr ''_No web results found_'') \<and>
   (web_section_content (PList (w # ws)) = Inr c \<longrightarrow> (\<exists>d. c = PDict d)) \<and>
   (aggregator_report_data query_id enhanced_query (PList []) local_results final_answer
        grouped_web_results previous_results follow_up_conversation = Inr doc \<longrightarrow>
    doc ! 3 = PDict [(''level'', PInt 2), (''title'', PStr ''Web Search Results''),
                     (''content'', PStr ''_No web results found_'')])"
  by (auto simp: web_section_content_def aggregator_report_data_def py_iter_def bind_eq_Inr)

theorem no_web_results_placeholder_witness:
  "(\<exists>doc. aggregator_report_data ''q1'' (PStr ''e'') (PList []) (PList []) (PStr ''a'')
             PNone PNone PNone = Inr doc \<and>
          doc ! 3 = PDict [(''level'', PInt 2), (''title'', PStr ''Web Search Results''),
                           (''content'', PStr ''_No web results found_'')]) \<and>
   web_section_content (PList [PDict [(''url'', PStr ''u'')]]) =
     Inr (PDict [(''items'', PList [PDict [(''primary'', PStr ''u''), (''secondary'', PStr [])]]),
                 (''item_prefix'', PStr ''URL''), (''secondary_prefix'', PStr ''Snippet'')])"
proof -
  have w: "web_section_content (PList [PDict [(''url'', PStr ''u'')]]) =
     Inr (PDict [(''items'', PList [PDict [(''primary'', PStr ''u''), (''secondary'', PStr [])]]),
                 (''item_prefix'', PStr ''URL''), (''secondary_prefix'', PStr ''Snippet'')])"
    by code_simp
  show ?thesis
    using small_document w
      no_web_results_placeholder [of "PDict [(''url'', PStr ''u'')]" "[]" _ "''q1''" "PStr ''e''"
        "PList []" "PStr ''a''" PNone PNone PNone]
    by simp
qed

text \<open>
  Claim C8. With local results that are dicts whose metadata is a dict, the content of the
  section \<^verbatim>\<open>Local Retrieval Results\<close> of the full document holds one item for each
  local result, in order. The \<open>primary\<close> of an item is the file path of the result's
  metadata (the empty string when there is none). With a \<open>page\<close> key in the metadata,
  \<open>secondary\<close> is the page and \<open>tertiary\<close> the snippet; without one, \<open>secondary\<close> is
  the snippet and the item has no \<open>tertiary\<close> key.
\<close>

theorem local_results_mapping:
  assumes "docs \<noteq> []"
    and "\<forall>doc \<in> set docs. \<exists>d meta. doc = PDict d \<and> dict_get d ''metadata'' (PDict []) = PDict meta"
  shows "\<exists>items.
     local_section_content (PList docs) =
       Inr (PDict [(''items'', PList items), (''item_prefix'', PStr ''File''),
                   (''secondary_prefix'', PStr ''Page''), (''tertiary_prefix'', PStr ''Snippet'')]) \<and>
     length items = length docs \<and>
     (\<forall>i < length docs. \<exists>d meta item.
        docs ! i = PDict d \<and> dict_get d ''metadata'' (PDict []) = PDict meta \<and>
        items ! i = PDict item \<and>
        map_of item ''primary'' = Some (dict_get meta ''file_path'' (PStr [])) \<and>
        (case map_of meta ''page'' of
           Some page \<Rightarrow> map_of item ''secondary'' = Some page \<and>
                        map_of item ''tertiary'' = Some (dict_get meta ''snippet'' (PStr []))
         | None \<Rightarrow> map_of item ''secondary'' = Some (dict_get meta ''snippet'' (PStr [])) \<and>
                   map_of item ''tertiary'' = None)) \<and>
     (\<forall>doc. aggregator_report_data query_id enhanced_query web_results (PList docs) final_answer
              grouped_web_results previous_results follow_up_conversation = Inr doc \<longrightarrow>
        PDict [(''level'', PInt 2), (''title'', PStr ''Local Retrieval Results''),
               (''content'',
                PDict [(''items'', PList items), (''item_prefix'', PStr ''File''),
                       (''secondary_prefix'', PStr ''Page''), (''tertiary_prefix'', PStr ''Snippet'')])]
          \<in> set doc)"
proof -
  define P where "P = (\<lambda>x y. \<exists>d meta item.
        x = PDict d \<and> dict_get d ''metadata'' (PDict []) = PDict meta \<and>
        y = PDict item \<and>
        map_of item ''primary'' = Some (dict_get meta ''file_path'' (PStr [])) \<and>
        (case map_of meta ''page'' of
           Some page \<Rightarrow> map_of item ''secondary'' = Some page \<and>
                        map_of item ''tertiary'' = Some (dict_get meta ''snippet'' (PStr []))
         | None \<Rightarrow> map_of item ''secondary'' = Some (dict_get meta ''snippet'' (PStr [])) \<and>
                   map_of item ''tertiary'' = None))"
  have "\<forall>x \<in> set docs. \<exists>y. local_item x = Inr y \<and> P x y"
  proof
    fix x assume "x \<in> set docs"
    with assms(2) obtain d meta where x: "x = PDict d" "dict_get d ''metadata'' (PDict []) = PDict meta"
      by blast
    from local_item_maps [OF x(2)] x show "\<exists>y. local_item x = Inr y \<and> P x y"
      unfolding P_def by blast
  qed
  from map_result_nth [OF this] obtain items where items:
    "map_result local_item docs = Inr items" "length items = length docs"
    "\<forall>i < length docs. P (docs ! i) (items ! i)" by blast
  have 1: "local_section_content (PList docs) =
       Inr (PDict [(''items'', PList items), (''item_prefix'', PStr ''File''),
                   (''secondary_prefix'', PStr ''Page''), (''tertiary_prefix'', PStr ''Snippet'')])"
    using assms(1) items(1) by (simp add: local_section_content_def py_iter_def)
  have 2: "\<forall>doc. aggregator_report_data query_id enhanced_query web_results (PList docs) final_answer
              grouped_web_results previous_results follow_up_conversation = Inr doc \<longrightarrow>
        PDict [(''level'', PInt 2), (''title'', PStr ''Local Retrieval Results''),
               (''content'',
                PDict [(''items'', PList items), (''item_prefix'', PStr ''File''),
                       (''secondary_prefix'', PStr ''Page''), (''tertiary_prefix'', PStr ''Snippet'')])]
          \<in> set doc"
    by (auto simp: aggregator_report_data_def 1 bind_eq_Inr)
  from 1 2 items(2,3) show ?thesis
    unfolding P_def by blast
qed

theorem local_results_mapping_witness:
  "local_section_content
     (PList [PDict [(''metadata'', PDict [(''file_path'', PStr ''a.pdf''), (''page'', PInt 3),
                                          (''snippet'', PStr ''hello'')])],
             PDict [(''metadata'', PDict [(''file_path'', PStr ''a.pdf''),
                                          (''snippet'', PStr ''hello'')])]]) =
     Inr (PDict [(''items'', PList [
                    PDict [(''primary'', PStr ''a.pdf''), (''secondary'', PInt 3),
                           (''tertiary'', PStr ''hello'')],
                    PDict [(''primary'', PStr ''a.pdf''), (''secondary'', PStr ''hello'')]]),
                 (''item_prefix'', PStr ''File''), (''secondary_prefix'', PStr ''Page''),
                 (''tertiary_prefix'', PStr ''Snippet'')]) \<and>
   (\<exists>doc. aggregator_report_data ''q1'' (PStr ''e'') (PList [])
       (PList [PDict [(''metadata'', PDict [(''file_path'', PStr ''a.pdf''), (''page'', PInt 3),
                                            (''snippet'', PStr ''hello'')])],
               PDict [(''metadata'', PDict [(''file_path'', PStr ''a.pdf''),
                                            (''snippet'', PStr ''hello'')])]])
       (PStr ''a'') PNone PNone PNone = Inr doc \<and>
     PDict [(''level'', PInt 2), (''title'', PStr ''Local Retrieval Results''),
            (''content'',
             PDict [(''items'', PList [
                       PDict [(''primary'', PStr ''a.pdf''), (''secondary'', PInt 3),
                              (''tertiary'', PStr ''hello'')],
                       PDict [(''primary'', PStr ''a.pdf''), (''secondary'', PStr ''hello'')]]),
                    (''item_prefix'', PStr ''File''), (''secondary_prefix'', PStr ''Page''),
                    (''tertiary_prefix'', PStr ''Snippet'')])] \<in> set doc)"
proof -
  let ?docs = "[PDict [(''metadata'', PDict [(''file_path'', PStr ''a.pdf''), (''page'', PInt 3),
                                            (''snippet'', PStr ''hello'')])],
                PDict [(''metadata'', PDict [(''file_path'', PStr ''a.pdf''),
                                            (''snippet'', PStr ''hello'')])]]"
  have h1: "?docs \<noteq> []" by simp
  have h2: "\<forall>doc \<in> set ?docs. \<exists>d meta. doc = PDict d \<and> dict_get d ''metadata'' (PDict []) = PDict meta"
    by (simp add: dict_get_def)
  have l: "local_section_content (PList ?docs) =
     Inr (PDict [(''items'', PList [
                    PDict [(''primary'', PStr ''a.pdf''), (''secondary'', PInt 3),
                           (''tertiary'', PStr ''hello'')],
                    PDict [(''primary'', PStr ''a.pdf''), (''secondary'', PStr ''hello'')]]),
                 (''item_prefix'', PStr ''File''), (''secondary_prefix'', PStr ''Page''),
                 (''tertiary_prefix'', PStr ''Snippet'')])"
    by code_simp
  have "\<exists>doc. aggregator_report_data ''q1'' (PStr ''e'') (PList []) (PList ?docs)
       (PStr ''a'') PNone PNone PNone = Inr doc"
    by (simp add: aggregator_report_data_def web_section_content_def grouped_sections_def l)
  then obtain doc where d: "aggregator_report_data ''q1'' (PStr ''e'') (PList []) (PList ?docs)
       (PStr ''a'') PNone PNone PNone = Inr doc" by blast
  from local_results_mapping [OF h1 h2, of "''q1''" "PStr ''e''" "PList []" "PStr ''a''" PNone PNone PNone]
  obtain items where
    "local_section_content (PList ?docs) =
       Inr (PDict [(''items'', PList items), (''item_prefix'', PStr ''File''),
                   (''secondary_prefix'', PStr ''Page''), (''tertiary_prefix'', PStr ''Snippet'')])"
    "\<forall>doc. aggregator_report_data ''q1'' (PStr ''e'') (PList []) (PList ?docs) (PStr ''a'')
              PNone PNone PNone = Inr doc \<longrightarrow>
        PDict [(''level'', PInt 2), (''title'', PStr ''Local Retrieval Results''),
               (''content'',
                PDict [(''items'', PList items), (''item_prefix'', PStr ''File''),
                       (''secondary_prefix'', PStr ''Page''), (''tertiary_prefix'', PStr ''Snippet'')])]
          \<in> set doc"
    by blast
  with l d show ?thesis by auto
qed

section \<open>Dict content without items\<close>

text \<open>
  Claim C10. A content that is a dict is never a string, so the inner string branch of the
  AsciiDoc renderer (line 77) is never taken: whenever the items are false the dict case
  appends nothing. With an empty list of items both renderers emit nothing for the
  content, so a section with such a content renders as its heading step alone, with no
  placeholder line.
\<close>

theorem empty_items_render_nothing:
  "\<not> is_str (PDict c) \<and>
   (\<not> truthy (dict_get c ''items'' (PList [])) \<longrightarrow>
      adoc_content h1 skipped level title (PDict c) = Inr []) \<and>
   (dict_get c ''items'' (PList []) = PList [] \<longrightarrow>
      md_content title (PDict c) = Inr [] \<and>
      adoc_content h1 skipped level title (PDict c) = Inr [] \<and>
      (dict_get d ''content'' (PStr []) = PDict c \<longrightarrow>
         md_section (PDict d) =
           md_heading (dict_get d ''level'' (PInt 1)) (dict_get d ''title'' (PStr [])) \<and>
         adoc_section h1 skipped (PDict d) =
           adoc_heading h1 skipped (dict_get d ''level'' (PInt 1)) (dict_get d ''title'' (PStr []))))"
  by (auto simp: is_str_def adoc_content_def md_content_def py_iter_def md_section_def
      adoc_section_def py_get_def Let_def bind_def split: sum.splits)

theorem empty_items_render_nothing_witness:
  "md_section (PDict [(''level'', PInt 2), (''title'', PStr ''T''),
        (''content'', PDict [(''items'', PList []), (''item_prefix'', PStr ''URL'')])]) =
     Inr ''## T\<newline>\<newline>'' \<and>
   adoc_section PNone False (PDict [(''level'', PInt 2), (''title'', PStr ''T''),
        (''content'', PDict [(''items'', PList []), (''item_prefix'', PStr ''URL'')])]) =
     Inr ([''=== T\<newline>''], False)"
proof -
  have m: "md_heading (PInt 2) (PStr ''T'') = Inr ''## T\<newline>\<newline>''"
    by code_simp
  have a: "adoc_heading PNone False (PInt 2) (PStr ''T'') = Inr ([''=== T\<newline>''], False)"
    by code_simp
  show ?thesis
    using m a
      empty_items_render_nothing [of "[(''items'', PList []), (''item_prefix'', PStr ''URL'')]"
        PNone False "PInt 2" "PStr ''T''"
        "[(''level'', PInt 2), (''title'', PStr ''T''),
          (''content'', PDict [(''items'', PList []), (''item_prefix'', PStr ''URL'')])]"]
    by (simp add: dict_get_def)
qed

section \<open>Headings\<close>

text \<open>
  The headings of the sections of the document sequence itself. A section with an integer
  level \<open>n\<close> (not negative) and a title that is not empty, other than the one the loop
  takes for the document title, gets at its place in the Markdown file a heading of \<open>n\<close>
  characters \<^verbatim>\<open>#\<close>, and at its place in the AsciiDoc lines a heading of \<open>n + 1\<close>
  characters \<^verbatim>\<open>=\<close>, each followed by a space and the title; its content follows.
\<close>

lemma body_heading_markers:
  assumes "dict_get d ''level'' (PInt 1) = PInt n" and "0 \<le> n"
    and "dict_get d ''title'' (PStr []) = title" and "truthy title"
    and "dict_get d ''content'' (PStr []) = content"
    and "first_h1_title (pre @ PDict d # post) = Inr h1"
    and "skipped = skipped_after h1 False pre"
    and "\<not> (is_first_h1 h1 (PInt n) title \<and> \<not> skipped)"
  shows "write_markdown_report (pre @ PDict d # post) =
           bind (md_sections pre) (\<lambda>before.
           bind (md_content title content) (\<lambda>own.
           bind (md_sections post) (\<lambda>after.
             Inr (before @ (replicate (nat n) CHR ''#'' @ '' '' @ py_str title @ nl @ nl)
                  @ own @ after)))) \<and>
         adoc_lines (pre @ PDict d # post) =
           bind (adoc_sections h1 False pre) (\<lambda>before.
           bind (adoc_content h1 skipped (PInt n) title content) (\<lambda>own.
           bind (adoc_sections h1 skipped post) (\<lambda>after.
             Inr ((if truthy h1 then [''= '' @ py_str h1 @ nl] else []) @ before
                  @ [replicate (Suc (nat n)) CHR ''='' @ '' '' @ py_str title @ nl]
                  @ own @ after)))) \<and>
         int (length (replicate (nat n) CHR ''#'')) = n \<and>
         int (length (replicate (Suc (nat n)) CHR ''='')) = n + 1"
proof -
  have m: "md_sections (PDict d # post) =
     bind (md_content title content) (\<lambda>own.
     bind (md_sections post) (\<lambda>after.
       Inr ((replicate (nat n) CHR ''#'' @ '' '' @ py_str title @ nl @ nl) @ own @ after)))"
    by (simp add: md_section_titled [OF assms(1,3,4,5)] bind_def split: sum.splits)
  have 1: "write_markdown_report (pre @ PDict d # post) =
           bind (md_sections pre) (\<lambda>before.
           bind (md_content title content) (\<lambda>own.
           bind (md_sections post) (\<lambda>after.
             Inr (before @ (replicate (nat n) CHR ''#'' @ '' '' @ py_str title @ nl @ nl)
                  @ own @ after))))"
    unfolding write_markdown_report_def md_sections_append m
    by (simp add: bind_def split: sum.splits)
  have a: "adoc_sections h1 skipped (PDict d # post) =
     bind (adoc_content h1 skipped (PInt n) title content) (\<lambda>own.
     bind (adoc_sections h1 skipped post) (\<lambda>after.
       Inr ((replicate (Suc (nat n)) CHR ''='' @ '' '' @ py_str title @ nl) # own @ after)))"
    by (simp add: adoc_section_titled [OF assms(1,2,3,4,5,8)] bind_def split: sum.splits)
  have b: "adoc_sections h1 False (pre @ PDict d # post) =
           bind (adoc_sections h1 False pre) (\<lambda>before.
           bind (adoc_content h1 skipped (PInt n) title content) (\<lambda>own.
           bind (adoc_sections h1 skipped post) (\<lambda>after.
             Inr (before @ [replicate (Suc (nat n)) CHR ''='' @ '' '' @ py_str title @ nl]
                  @ own @ after))))"
    unfolding adoc_sections_split [of h1 False pre] assms(7) [symmetric] a
    by (simp add: bind_def split: sum.splits)
  have c: "adoc_lines (pre @ PDict d # post) =
     bind (adoc_sections h1 False (pre @ PDict d # post)) (\<lambda>body.
       Inr ((if truthy h1 then [''= '' @ py_str h1 @ nl] else []) @ body))"
    by (simp add: adoc_lines_def assms(6))
  have 2: "adoc_lines (pre @ PDict d # post) =
           bind (adoc_sections h1 False pre) (\<lambda>before.
           bind (adoc_content h1 skipped (PInt n) title content) (\<lambda>own.
           bind (adoc_sections h1 skipped post) (\<lambda>after.
             Inr ((if truthy h1 then [''= '' @ py_str h1 @ nl] else []) @ before
                  @ [replicate (Suc (nat n)) CHR ''='' @ '' '' @ py_str title @ nl]
                  @ own @ after))))"
    unfolding c b by (simp add: bind_def split: sum.splits)
  from 1 2 assms(2) show ?thesis by simp
qed

lemma body_heading_markers_example:
  "write_markdown_report
     [PDict [(''level'', PInt 1), (''title'', PStr ''Doc'')],
      PDict [(''level'', PInt 2), (''title'', PStr ''T''), (''content'', PStr ''x'')],
      PDict [(''level'', PInt 3), (''title'', PStr ''U'')]] =
     Inr (''# Doc\<newline>\<newline>_No content for this section._\<newline>\<newline>## T\<newline>\<newline>x\<newline>\<newline>''
          @ ''### U\<newline>\<newline>_No content for this section._\<newline>\<newline>'') \<and>
   adoc_lines
     [PDict [(''level'', PInt 1), (''title'', PStr ''Doc'')],
      PDict [(''level'', PInt 2), (''title'', PStr ''T''), (''content'', PStr ''x'')],
      PDict [(''level'', PInt 3), (''title'', PStr ''U'')]] =
     Inr [''= Doc\<newline>'', ''=== T\<newline>'', ''x\<newline>'', ''==== U\<newline>'',
          ''_No content for this section._\<newline>'']"
proof -
  have f: "first_h1_title ([PDict [(''level'', PInt 1), (''title'', PStr ''Doc'')]]
      @ PDict [(''level'', PInt 2), (''title'', PStr ''T''), (''content'', PStr ''x'')]
      # [PDict [(''level'', PInt 3), (''title'', PStr ''U'')]]) = Inr (PStr ''Doc'')"
    by code_simp
  have sk: "True = skipped_after (PStr ''Doc'') False
      [PDict [(''level'', PInt 1), (''title'', PStr ''Doc'')]]"
    by code_simp
  have m1: "md_sections [PDict [(''level'', PInt 1), (''title'', PStr ''Doc'')]] =
      Inr ''# Doc\<newline>\<newline>_No content for this section._\<newline>\<newline>''"
    by code_simp
  have m2: "md_content (PStr ''T'') (PStr ''x'') = Inr ''x\<newline>\<newline>''"
    by code_simp
  have m3: "md_sections [PDict [(''level'', PInt 3), (''title'', PStr ''U'')]] =
      Inr ''### U\<newline>\<newline>_No content for this section._\<newline>\<newline>''"
    by code_simp
  have a1: "adoc_sections (PStr ''Doc'') False [PDict [(''level'', PInt 1), (''title'', PStr ''Doc'')]] =
      Inr []"
    by code_simp
  have a2: "adoc_content (PStr ''Doc'') True (PInt 2) (PStr ''T'') (PStr ''x'') = Inr [''x\<newline>'']"
    by code_simp
  have a3: "adoc_sections (PStr ''Doc'') True [PDict [(''level'', PInt 3), (''title'', PStr ''U'')]] =
      Inr [''==== U\<newline>'', ''_No content for this section._\<newline>'']"
    by code_simp
  show ?thesis
    using m1 m2 m3 a1 a2 a3
      body_heading_markers [of "[(''level'', PInt 2), (''title'', PStr ''T''), (''content'', PStr ''x'')]"
        2 "PStr ''T''" "PStr ''x''" "[PDict [(''level'', PInt 1), (''title'', PStr ''Doc'')]]"
        "[PDict [(''level'', PInt 3), (''title'', PStr ''U'')]]" "PStr ''Doc''" True,
        OF _ _ _ _ _ f sk]
    by (simp add: dict_get_def is_first_h1_def py_str_def nl_def eval_nat_numeral)
qed

text \<open>
  Claim C6 fails on the code. A titled section that sits in the list content of another
  one, as the builder's level 3 domain sections do, gets no heading from either renderer:
  no line of three \<^verbatim>\<open>#\<close> or four \<^verbatim>\<open>=\<close> is written for the section \<^verbatim>\<open>D\<close> below, only
  a bullet with the \<^verbatim>\<open>repr\<close> of its dict, while the sections \<^verbatim>\<open>G\<close> and \<^verbatim>\<open>L\<close> of the
  sequence itself get their two and three marker characters.
\<close>

theorem nested_section_without_heading:
  "write_markdown_report
     [PDict [(''level'', PInt 1), (''title'', PStr ''Doc'')],
      PDict [(''level'', PInt 2), (''title'', PStr ''G''),
             (''content'', PList [PDict [(''level'', PInt 3), (''title'', PStr ''D'')]])],
      PDict [(''level'', PInt 2), (''title'', PStr ''L''), (''content'', PStr ''x'')]] =
     Inr (''# Doc\<newline>\<newline>_No content for this section._\<newline>\<newline>''
          @ ''## G\<newline>\<newline>- {'level': 3, 'title': 'D'}\<newline>\<newline>''
          @ ''## L\<newline>\<newline>x\<newline>\<newline>'') \<and>
   write_asciidoc_report
     [PDict [(''level'', PInt 1), (''title'', PStr ''Doc'')],
      PDict [(''level'', PInt 2), (''title'', PStr ''G''),
             (''content'', PList [PDict [(''level'', PInt 3), (''title'', PStr ''D'')]])],
      PDict [(''level'', PInt 2), (''title'', PStr ''L''), (''content'', PStr ''x'')]] =
     Inr (''= Doc\<newline>\<newline>=== G\<newline>\<newline>* {'level': 3, 'title': 'D'}\<newline>\<newline>''
          @ ''=== L\<newline>\<newline>x\<newline>'')"
  by code_simp

section \<open>The document title\<close>

text \<open>
  Claim C3, as amended. The scan of line 41 stops at the first section whose level equals
  1, whatever its title, and returns that title. When the title is empty (or otherwise
  false) no title line is written, and a later section of level 1 with a string title
  \<open>T\<close> that is not empty is not elided: the lines of the file are those of the sections
  before it, then its body heading \<^verbatim>\<open>== T\<close>, then the lines of its content, then those of
  the sections after it.
\<close>

theorem prescan_first_level1:
  assumes "\<forall>s \<in> set pre. \<exists>d. s = PDict d \<and> \<not> py_eq (dict_get d ''level'' PNone) (PInt 1)"
    and "py_eq (dict_get d ''level'' PNone) (PInt 1)"
    and "map_of d ''title'' = Some t" and "\<not> truthy t"
    and "dict_get e ''level'' (PInt 1) = PInt 1"
    and "dict_get e ''title'' (PStr []) = PStr T" and "T \<noteq> []"
    and "skipped = skipped_after t False (pre @ PDict d # mid)"
  shows "first_h1_title (pre @ PDict d # mid @ PDict e # post) = Inr t \<and>
     adoc_lines (pre @ PDict d # mid @ PDict e # post) =
       bind (adoc_sections t False (pre @ PDict d # mid)) (\<lambda>before.
       bind (adoc_content t skipped (PInt 1) (PStr T) (dict_get e ''content'' (PStr []))) (\<lambda>own.
       bind (adoc_sections t skipped post) (\<lambda>after.
         Inr (before @ [''== '' @ T @ nl] @ own @ after))))"
proof -
  have 1: "first_h1_title (pre @ PDict d # mid @ PDict e # post) = Inr t"
    using assms(1,2,3) by (simp add: first_h1_title_skip)
  have n: "\<not> (is_first_h1 t (PInt 1) (PStr T) \<and> \<not> skipped)"
    using falsy_not_eq_title [OF assms(4,7)] by (simp add: is_first_h1_def)
  have a: "adoc_sections t skipped (PDict e # post) =
     bind (adoc_content t skipped (PInt 1) (PStr T) (dict_get e ''content'' (PStr []))) (\<lambda>own.
     bind (adoc_sections t skipped post) (\<lambda>after. Inr ((''== '' @ T @ nl) # own @ after)))"
    using adoc_section_titled [OF assms(5) _ assms(6) _ refl n] assms(7)
    by (simp add: py_str_def eval_nat_numeral bind_def split: sum.splits)
  have s: "pre @ PDict d # mid @ PDict e # post = (pre @ PDict d # mid) @ PDict e # post"
    by simp
  have b: "adoc_sections t False ((pre @ PDict d # mid) @ PDict e # post) =
       bind (adoc_sections t False (pre @ PDict d # mid)) (\<lambda>before.
       bind (adoc_content t skipped (PInt 1) (PStr T) (dict_get e ''content'' (PStr []))) (\<lambda>own.
       bind (adoc_sections t skipped post) (\<lambda>after.
         Inr (before @ [''== '' @ T @ nl] @ own @ after))))"
    unfolding adoc_sections_split [of t False "pre @ PDict d # mid"] assms(8) [symmetric] a
    by (simp add: bind_def split: sum.splits)
  have c: "adoc_lines (pre @ PDict d # mid @ PDict e # post) =
     adoc_sections t False ((pre @ PDict d # mid) @ PDict e # post)"
    using assms(4) by (simp add: adoc_lines_def 1)
  have 2: "adoc_lines (pre @ PDict d # mid @ PDict e # post) =
       bind (adoc_sections t False (pre @ PDict d # mid)) (\<lambda>before.
       bind (adoc_content t skipped (PInt 1) (PStr T) (dict_get e ''content'' (PStr []))) (\<lambda>own.
       bind (adoc_sections t skipped post) (\<lambda>after.
         Inr (before @ [''== '' @ T @ nl] @ own @ after))))"
    unfolding c b ..
  from 1 2 show ?thesis by simp
qed

theorem prescan_first_level1_witness:
  "first_h1_title
     [PDict [(''level'', PInt 2), (''title'', PStr ''Intro'')],
      PDict [(''level'', PInt 1), (''title'', PStr [])],
      PDict [(''level'', PInt 2), (''title'', PStr ''Mid''), (''content'', PStr ''m'')],
      PDict [(''level'', PInt 1), (''title'', PStr ''T''), (''content'', PStr ''b'')],
      PDict [(''level'', PInt 2), (''title'', PStr ''End'')]] = Inr (PStr []) \<and>
   adoc_lines
     [PDict [(''level'', PInt 2), (''title'', PStr ''Intro'')],
      PDict [(''level'', PInt 1), (''title'', PStr [])],
      PDict [(''level'', PInt 2), (''title'', PStr ''Mid''), (''content'', PStr ''m'')],
      PDict [(''level'', PInt 1), (''title'', PStr ''T''), (''content'', PStr ''b'')],
      PDict [(''level'', PInt 2), (''title'', PStr ''End'')]] =
     Inr [''=== Intro\<newline>'', ''_No content for this section._\<newline>'', ''=== Mid\<newline>'', ''m\<newline>'',
          ''== T\<newline>'', ''b\<newline>'', ''=== End\<newline>'', ''_No content for this section._\<newline>'']"
proof -
  have sk: "True = skipped_after (PStr []) False
       ([PDict [(''level'', PInt 2), (''title'', PStr ''Intro'')]]
        @ PDict [(''level'', PInt 1), (''title'', PStr [])]
        # [PDict [(''level'', PInt 2), (''title'', PStr ''Mid''), (''content'', PStr ''m'')]])"
    by code_simp
  have before: "adoc_sections (PStr []) False
       ([PDict [(''level'', PInt 2), (''title'', PStr ''Intro'')]]
        @ PDict [(''level'', PInt 1), (''title'', PStr [])]
        # [PDict [(''level'', PInt 2), (''title'', PStr ''Mid''), (''content'', PStr ''m'')]]) =
     Inr [''=== Intro\<newline>'', ''_No content for this section._\<newline>'', ''=== Mid\<newline>'', ''m\<newline>'']"
    by code_simp
  have own: "adoc_content (PStr []) True (PInt 1) (PStr ''T'') (PStr ''b'') = Inr [''b\<newline>'']"
    by code_simp
  have after: "adoc_sections (PStr []) True [PDict [(''level'', PInt 2), (''title'', PStr ''End'')]] =
     Inr [''=== End\<newline>'', ''_No content for this section._\<newline>'']"
    by code_simp
  show ?thesis
    using before own after
      prescan_first_level1 [of "[PDict [(''level'', PInt 2), (''title'', PStr ''Intro'')]]"
        "[(''level'', PInt 1), (''title'', PStr [])]" "PStr []"
        "[(''level'', PInt 1), (''title'', PStr ''T''), (''content'', PStr ''b'')]" "''T''" True
        "[PDict [(''level'', PInt 2), (''title'', PStr ''Mid''), (''content'', PStr ''m'')]]"
        "[PDict [(''level'', PInt 2), (''title'', PStr ''End'')]]", OF _ _ _ _ _ _ _ sk]
    by (simp add: dict_get_def nl_def)
qed

text \<open>
  Claim C3 as the specification states it fails: the first section of level 1 has an
  empty title and the second one the title \<^verbatim>\<open>T\<close>; no line \<^verbatim>\<open>= T\<close> is written and the
  second section keeps its body heading.
\<close>

theorem prescan_nonempty_counterexample:
  "adoc_lines
     [PDict [(''level'', PInt 1), (''title'', PStr []), (''content'', PStr ''a'')],
      PDict [(''level'', PInt 1), (''title'', PStr ''T''), (''content'', PStr ''b'')]] =
     Inr [''a\<newline>'', ''== T\<newline>'', ''b\<newline>'']"
  by code_simp

text \<open>
  Claim C5, as amended. When the first section of level 1 has a string title \<open>T\<close> that
  is not empty, and every section before it carries a level other than 1, the output
  starts with the title line \<^verbatim>\<open>= T\<close>; then come the lines of the sections before, then
  at the section's own place only the lines of its content (no heading, and no
  placeholder when the content is empty), then the lines of the sections after.
\<close>

theorem title_section_elided:
  assumes pre: "\<forall>s \<in> set pre. \<exists>d l. s = PDict d \<and> map_of d ''level'' = Some l \<and> \<not> py_eq l (PInt 1)"
    and lvl: "map_of d ''level'' = Some l" "py_eq l (PInt 1)"
    and ttl: "map_of d ''title'' = Some (PStr T)" "T \<noteq> []"
  shows "adoc_lines (pre @ PDict d # post) =
     bind (adoc_sections (PStr T) False pre) (\<lambda>before.
     bind (adoc_content (PStr T) True l (PStr T) (dict_get d ''content'' (PStr []))) (\<lambda>own.
     bind (adoc_sections (PStr T) True post) (\<lambda>after.
       Inr ((''= '' @ T @ nl) # before @ own @ after))))"
proof -
  have a: "\<forall>s \<in> set pre. \<exists>d. s = PDict d \<and> \<not> py_eq (dict_get d ''level'' PNone) (PInt 1)"
    using pre by (fastforce simp: dict_get_def)
  have b: "\<forall>s \<in> set pre. not_h1 (PStr T) s"
    using pre by (fastforce simp: not_h1_def is_first_h1_def dict_get_def)
  have 1: "first_h1_title (pre @ PDict d # post) = Inr (PStr T)"
    using a lvl ttl by (simp add: first_h1_title_skip dict_get_def)
  have 2: "adoc_sections (PStr T) False (PDict d # post) =
     bind (adoc_content (PStr T) True l (PStr T) (dict_get d ''content'' (PStr []))) (\<lambda>own.
     bind (adoc_sections (PStr T) True post) (\<lambda>after. Inr (own @ after)))"
    using lvl ttl
    by (simp add: adoc_section_def py_get_def adoc_heading_def is_first_h1_def dict_get_def bind_def
        split: sum.splits)
  have 3: "adoc_sections (PStr T) False (pre @ PDict d # post) =
     bind (adoc_sections (PStr T) False pre) (\<lambda>before.
     bind (adoc_content (PStr T) True l (PStr T) (dict_get d ''content'' (PStr []))) (\<lambda>own.
     bind (adoc_sections (PStr T) True post) (\<lambda>after. Inr (before @ own @ after))))"
    unfolding adoc_sections_append [OF b] 2
    by (simp add: bind_def split: sum.splits)
  have 4: "adoc_lines (pre @ PDict d # post) =
     bind (adoc_sections (PStr T) False (pre @ PDict d # post)) (\<lambda>body.
       Inr ((''= '' @ T @ nl) # body))"
    using ttl by (simp add: adoc_lines_def 1 py_str_def)
  show ?thesis
    unfolding 4 3 by (simp add: bind_def split: sum.splits)
qed

theorem title_section_elided_witness:
  "adoc_lines
     [PDict [(''level'', PInt 2), (''title'', PStr ''Intro''), (''content'', PStr ''i'')],
      PDict [(''level'', PInt 1), (''title'', PStr ''T''), (''content'', PStr ''c'')],
      PDict [(''level'', PInt 1), (''title'', PStr ''U'')]] =
     Inr [''= T\<newline>'', ''=== Intro\<newline>'', ''i\<newline>'', ''c\<newline>'', ''== U\<newline>'',
          ''_No content for this section._\<newline>'']"
proof -
  have a: "adoc_sections (PStr ''T'') False
       [PDict [(''level'', PInt 2), (''title'', PStr ''Intro''), (''content'', PStr ''i'')]] =
     Inr [''=== Intro\<newline>'', ''i\<newline>'']"
    by code_simp
  have b: "adoc_content (PStr ''T'') True (PInt 1) (PStr ''T'') (PStr ''c'') = Inr [''c\<newline>'']"
    by code_simp
  have c: "adoc_sections (PStr ''T'') True [PDict [(''level'', PInt 1), (''title'', PStr ''U'')]] =
     Inr [''== U\<newline>'', ''_No content for this section._\<newline>'']"
    by code_simp
  show ?thesis
    using a b c
      title_section_elided [of
        "[PDict [(''level'', PInt 2), (''title'', PStr ''Intro''), (''content'', PStr ''i'')]]"
        "[(''level'', PInt 1), (''title'', PStr ''T''), (''content'', PStr ''c'')]" "PInt 1" "''T''"
        "[PDict [(''level'', PInt 1), (''title'', PStr ''U'')]]"]
    by (simp add: dict_get_def nl_def)
qed

text \<open>
  Claim C5 as the specification states it fails: here the first section of level 1 that
  has a title is the second one, titled \<^verbatim>\<open>Report\<close>; the output has no title line and
  the section keeps its body heading \<^verbatim>\<open>== Report\<close>.
\<close>

theorem title_section_counterexample:
  "write_asciidoc_report
     [PDict [(''level'', PInt 1), (''title'', PStr [])],
      PDict [(''level'', PInt 1), (''title'', PStr ''Report''), (''content'', PStr ''b'')]] =
     Inr ''== Report\<newline>\<newline>b\<newline>''"
  by code_simp

text \<open>
  Claim C2 fails on the code. A first section of level 1 without a title key makes the
  subscript of line 41 raise \<^verbatim>\<open>KeyError\<close>; the Markdown renderer, which reads the title
  with \<^verbatim>\<open>get\<close>, renders the same document.
\<close>

theorem missing_title_raises:
  "write_asciidoc_report [PDict [(''level'', PInt 1), (''content'', PStr ''x'')]] = Inl KeyError \<and>
   write_markdown_report [PDict [(''level'', PInt 1), (''content'', PStr ''x'')]] =
     Inr ''x\<newline>\<newline>''"
  by code_simp

section \<open>Nested sections\<close>

text \<open>
  Claim C1 fails on the code. The builder puts a list of sections into the content of the
  grouped section; both renderers write each element of a list content as one bullet, so a
  sub-section comes out as the \<^verbatim>\<open>repr\<close> of its dict. The last equation is what the
  Markdown loop gives for the sub-section when it is rendered as a section.
\<close>

theorem nested_sections_rendered_as_items:
  "grouped_sections (PDict [(''a.com'', PList [PDict [(''url'', PStr ''u''),
       (''file_path'', PStr ''f''), (''content_type'', PStr ''t'')]])]) =
     Inr [PDict [(''level'', PInt 2), (''title'', PStr ''Grouped Web Results by Domain''),
                 (''content'', PList [
                    PDict [(''level'', PInt 3), (''title'', PStr ''Domain: a.com''),
                           (''content'', PDict [
                              (''items'', PList [PDict [(''primary'', PStr ''u''),
                                 (''secondary'', PStr ''f''), (''tertiary'', PStr ''t'')]]),
                              (''item_prefix'', PStr ''URL''),
                              (''secondary_prefix'', PStr ''File Path''),
                              (''tertiary_prefix'', PStr ''Content Type'')])]])]] \<and>
   bind (grouped_sections (PDict [(''a.com'', PList [PDict [(''url'', PStr ''u''),
       (''file_path'', PStr ''f''), (''content_type'', PStr ''t'')]])])) write_markdown_report =
     Inr (''## Grouped Web Results by Domain\<newline>\<newline>''
          @ ''- {'level': 3, 'title': 'Domain: a.com', 'content': {'items': [{'primary': 'u',''
          @ '' 'secondary': 'f', 'tertiary': 't'}], 'item_prefix': 'URL',''
          @ '' 'secondary_prefix': 'File Path', 'tertiary_prefix': 'Content Type'}}\<newline>\<newline>'') \<and>
   bind (grouped_sections (PDict [(''a.com'', PList [PDict [(''url'', PStr ''u''),
       (''file_path'', PStr ''f''), (''content_type'', PStr ''t'')]])])) write_asciidoc_report =
     Inr (''=== Grouped Web Results by Domain\<newline>\<newline>''
          @ ''* {'level': 3, 'title': 'Domain: a.com', 'content': {'items': [{'primary': 'u',''
          @ '' 'secondary': 'f', 'tertiary': 't'}], 'item_prefix': 'URL',''
          @ '' 'secondary_prefix': 'File Path', 'tertiary_prefix': 'Content Type'}}\<newline>'') \<and>
   md_sections [PDict [(''level'', PInt 3), (''title'', PStr ''Domain: a.com''),
                       (''content'', PDict [
                          (''items'', PList [PDict [(''primary'', PStr ''u''),
                             (''secondary'', PStr ''f''), (''tertiary'', PStr ''t'')]]),
                          (''item_prefix'', PStr ''URL''),
                          (''secondary_prefix'', PStr ''File Path''),
                          (''tertiary_prefix'', PStr ''Content Type'')])]] =
     Inr (''### Domain: a.com\<newline>\<newline>- **URL:** u\<newline>''
          @ ''  - **File Path:** f\<newline>  - **Content Type:** t\<newline>\<newline>'')"
  by code_simp

section \<open>The written files\<close>




























end
